theory Spec2Isabelle
  imports Complex_Main "HOL-Library.Sublist"
begin

section \<open>Python values, exceptions and subscripts\<close>

text \<open>
  The module \<^verbatim>\<open>custom_components/smartthings/number.py\<close> is modelled function by
  function. An exception is a value of type \<open>error\<close>; a computation that may raise
  returns \<open>error + 'a\<close>, with \<open>Inl\<close> for the exception. \<open>KeyError\<close> carries the
  missing key, as Python's does. \<open>Raised\<close> stands for any exception of the remote
  command call.
\<close>

datatype error = KeyError string | ValueError | OverflowError | Raised string

text \<open>
  A Python float is a finite value, an infinity or a NaN. Every finite double is a
  rational number, so \<open>Finite\<close> over all rationals covers every finite double.
\<close>

datatype pyfloat = Finite rat | PosInf | NegInf | NaN

text \<open>
  The builtin \<^verbatim>\<open>int(x)\<close> on a float: truncation toward zero on a finite value,
  \<^verbatim>\<open>OverflowError\<close> on an infinity, \<^verbatim>\<open>ValueError\<close> on a NaN.
\<close>

definition trunc :: "rat \<Rightarrow> int" where
  "trunc r = (if 0 \<le> r then \<lfloor>r\<rfloor> else \<lceil>r\<rceil>)"

fun py_int :: "pyfloat \<Rightarrow> error + int" where
  "py_int (Finite r) = Inr (trunc r)"
| "py_int PosInf = Inl OverflowError"
| "py_int NegInf = Inl OverflowError"
| "py_int NaN = Inl ValueError"

text \<open>
  The subscript \<^verbatim>\<open>d[k]\<close> on a dict keyed by strings: the value, or
  \<^verbatim>\<open>KeyError(k)\<close> when the key is missing.
\<close>

definition getitem :: "(string \<rightharpoonup> 'v) \<Rightarrow> string \<Rightarrow> error + 'v" where
  "getitem d k = (case d k of None \<Rightarrow> Inl (KeyError k) | Some v \<Rightarrow> Inr v)"

section \<open>Names imported from other modules\<close>

text \<open>
  \<^verbatim>\<open>Capability\<close> and \<^verbatim>\<open>Attribute\<close> (module \<^verbatim>\<open>.capability\<close>),
  \<^verbatim>\<open>DOMAIN\<close> and \<^verbatim>\<open>DATA_BROKERS\<close> (module \<^verbatim>\<open>.const\<close>),
  \<^verbatim>\<open>UnitOfTemperature\<close> and \<^verbatim>\<open>NumberMode\<close> (Home Assistant) are string
  constants declared outside \<^verbatim>\<open>number.py\<close>. Their values are parameters of the
  model: every function that reads one takes the record \<open>K\<close> of them.
\<close>

record constants =
  Capability_thermostat_cooling_setpoint :: string
  Attribute_cooling_setpoint :: string
  DOMAIN :: string
  DATA_BROKERS :: string
  UnitOfTemperature_CELSIUS :: string
  UnitOfTemperature_FAHRENHEIT :: string
  NumberMode_AUTO :: string

section \<open>The device and its status cache\<close>

text \<open>
  One entry of the status cache: \<^verbatim>\<open>.value\<close> and \<^verbatim>\<open>.unit\<close> (either may be
  \<^verbatim>\<open>None\<close>).
\<close>

record Status =
  status_value :: "pyfloat option"
  status_unit :: "string option"

text \<open>
  \<^verbatim>\<open>device.status\<close> is an object of the cloud SDK, whose classes are not part of
  \<^verbatim>\<open>number.py\<close>. The module only subscripts it: \<^verbatim>\<open>status.attributes[a]\<close> for the
  main component and \<^verbatim>\<open>status.components[c].attributes[a]\<close> for a named component
  \<^verbatim>\<open>c\<close>. What a subscript of these mappings does is therefore a parameter of the
  model: each mapping is given by its subscript operation, which returns a value or
  raises. \<open>attributes\<close> is \<^verbatim>\<open>status.attributes[_]\<close>; \<open>status_components\<close> is
  \<^verbatim>\<open>status.components[_]\<close>, whose value stands for the \<^verbatim>\<open>.attributes[_]\<close> of that
  component.
\<close>

record DeviceStatus =
  attributes :: "string \<Rightarrow> error + Status"
  status_components :: "string \<Rightarrow> error + (string \<Rightarrow> error + Status)"

text \<open>
  Modelled from the spec: the status cache of the cloud SDK, which \<^verbatim>\<open>number.py\<close>
  reads and does not define. The spec (section 3) describes it as a "status cache mapping
  (component, attribute) -> value + unit", and (section 7) says of a missing entry:
  "Missing attribute/unit in status cache: returns a default/fallback rather than
  failing". \<open>spec_status cache\<close> is the status object over the entries \<open>cache\<close>: no
  subscript raises, and a pair that \<open>cache\<close> does not hold reads as \<open>default_entry\<close>,
  an entry with no value and no unit. \<open>spec_attributes cache c\<close> is the subscript of the
  attributes of the component \<open>c\<close>.
\<close>

definition default_entry :: Status where
  "default_entry = \<lparr>status_value = None, status_unit = None\<rparr>"

definition spec_attributes ::
  "((string \<times> string) \<rightharpoonup> Status) \<Rightarrow> string \<Rightarrow> string \<Rightarrow> error + Status" where
  "spec_attributes cache c a =
     Inr (case cache (c, a) of None \<Rightarrow> default_entry | Some entry \<Rightarrow> entry)"

definition spec_status :: "((string \<times> string) \<rightharpoonup> Status) \<Rightarrow> DeviceStatus" where
  "spec_status cache =
     \<lparr>attributes = spec_attributes cache ''main'',
      status_components = (\<lambda>c. Inr (spec_attributes cache c))\<rparr>"

text \<open>
  \<^verbatim>\<open>device.components\<close> is a dict from a component's name to the capabilities it
  advertises; the list of its items keeps the iteration order.
\<close>

record DeviceEntity =
  device_id :: string
  label :: string
  components :: "(string \<times> string list) list"
  status :: DeviceStatus

section \<open>The capability registry\<close>

text \<open>The namedtuple \<^verbatim>\<open>Map\<close>; the field \<open>m_x\<close> is \<^verbatim>\<open>m.x\<close>.\<close>

record Map_tuple =
  m_attribute :: string
  m_command :: string
  m_name :: string
  m_unit_of_measurement :: "string option"
  m_icon :: string
  m_min_value :: int
  m_max_value :: int
  m_step :: int
  m_mode :: string


definition CAPABILITY_TO_NUMBER :: "constants \<Rightarrow> (string \<times> Map_tuple list) list" where
  "CAPABILITY_TO_NUMBER K =
     [(Capability_thermostat_cooling_setpoint K,
       [\<lparr>m_attribute = Attribute_cooling_setpoint K,
         m_command = ''set_cooling_setpoint'',
         m_name = ''Cooling Setpoint'',
         m_unit_of_measurement = None,
         m_icon = ''mdi:thermometer'',
         m_min_value = - 22,
         m_max_value = 500,
         m_step = 1,
         m_mode = NumberMode_AUTO K\<rparr>])]"

text \<open>\<^verbatim>\<open>CAPABILITY_TO_NUMBER[capability]\<close>.\<close>

definition lookup :: "constants \<Rightarrow> string \<Rightarrow> error + Map_tuple list" where
  "lookup K capability = getitem (map_of (CAPABILITY_TO_NUMBER K)) capability"

section \<open>The entity\<close>

text \<open>
  An instance of \<^verbatim>\<open>SmartThingsNumber\<close>: the field \<open>s_x\<close> is \<^verbatim>\<open>self._x\<close>.
  \<^verbatim>\<open>SmartThingsEntity.__init__\<close> stores the device as \<^verbatim>\<open>self._device\<close>.
\<close>

record SmartThingsNumber =
  s_device :: DeviceEntity
  s_component :: string
  s_attribute :: string
  s_command :: string
  s_name :: string
  s_attr_native_unit_of_measurement :: "string option"
  s_icon :: string
  s_attr_native_min_value :: int
  s_attr_native_max_value :: int
  s_attr_native_step :: int
  s_attr_mode :: string

text \<open>The constructor call of both loops of \<^verbatim>\<open>async_setup_entry\<close>, for one \<^verbatim>\<open>m\<close>.\<close>

definition new_number :: "DeviceEntity \<Rightarrow> string \<Rightarrow> Map_tuple \<Rightarrow> SmartThingsNumber" where
  "new_number device component m =
     \<lparr>s_device = device,
      s_component = component,
      s_attribute = m_attribute m,
      s_command = m_command m,
      s_name = m_name m,
      s_attr_native_unit_of_measurement = m_unit_of_measurement m,
      s_icon = m_icon m,
      s_attr_native_min_value = m_min_value m,
      s_attr_native_max_value = m_max_value m,
      s_attr_native_step = m_step m,
      s_attr_mode = m_mode m\<rparr>"

subsection \<open>Read path\<close>

text \<open>\<^verbatim>\<open>name\<close> and \<^verbatim>\<open>unique_id\<close>: the two f-strings of each.\<close>

definition name :: "SmartThingsNumber \<Rightarrow> string" where
  "name s =
     (if s_component s = ''main'' then label (s_device s) @ '' '' @ s_name s
      else label (s_device s) @ '' '' @ s_component s @ '' '' @ s_name s)"

definition unique_id :: "SmartThingsNumber \<Rightarrow> string" where
  "unique_id s =
     (if s_component s = ''main'' then device_id (s_device s) @ ''.'' @ s_attribute s
      else device_id (s_device s) @ ''.'' @ s_component s @ ''.'' @ s_attribute s)"

text \<open>
  The status entry that \<^verbatim>\<open>native_value\<close>, \<^verbatim>\<open>native_min_value\<close>,
  \<^verbatim>\<open>native_max_value\<close> and \<^verbatim>\<open>native_unit_of_measurement\<close> each read first:
  \<^verbatim>\<open>status.attributes[attribute]\<close> for the component "main",
  \<^verbatim>\<open>status.components[component].attributes[attribute]\<close> otherwise. An exception of
  either subscript leaves the getter.
\<close>

definition status_entry :: "SmartThingsNumber \<Rightarrow> error + Status" where
  "status_entry s =
     (if s_component s = ''main'' then
        attributes (status (s_device s)) (s_attribute s)
      else
        (case status_components (status (s_device s)) (s_component s) of
           Inl e \<Rightarrow> Inl e
         | Inr component_attributes \<Rightarrow> component_attributes (s_attribute s)))"

definition native_value :: "SmartThingsNumber \<Rightarrow> error + pyfloat option" where
  "native_value s =
     (case status_entry s of Inl e \<Rightarrow> Inl e | Inr entry \<Rightarrow> Inr (status_value entry))"

definition native_min_value :: "SmartThingsNumber \<Rightarrow> error + int" where
  "native_min_value s =
     (case status_entry s of
        Inl e \<Rightarrow> Inl e
      | Inr entry \<Rightarrow>
          (let unit = status_unit entry in
           if s_component s = ''cooler'' then
             (if unit = Some ''F'' then Inr 34
              else if unit = Some ''C'' then Inr 1
              else Inr (s_attr_native_min_value s))
           else if s_component s = ''freezer'' then
             (if unit = Some ''F'' then Inr (- 8)
              else if unit = Some ''C'' then Inr (- 22)
              else Inr (s_attr_native_min_value s))
           else Inr (s_attr_native_min_value s)))"

definition native_max_value :: "SmartThingsNumber \<Rightarrow> error + int" where
  "native_max_value s =
     (case status_entry s of
        Inl e \<Rightarrow> Inl e
      | Inr entry \<Rightarrow>
          (let unit = status_unit entry in
           if s_component s = ''cooler'' then
             (if unit = Some ''F'' then Inr 44
              else if unit = Some ''C'' then Inr 6
              else Inr (s_attr_native_max_value s))
           else if s_component s = ''freezer'' then
             (if unit = Some ''F'' then Inr 5
              else if unit = Some ''C'' then Inr (- 15)
              else Inr (s_attr_native_max_value s))
           else Inr (s_attr_native_max_value s)))"

definition native_step :: "SmartThingsNumber \<Rightarrow> int" where
  "native_step s = s_attr_native_step s"

definition icon :: "SmartThingsNumber \<Rightarrow> string" where
  "icon s = s_icon s"

definition mode :: "SmartThingsNumber \<Rightarrow> string" where
  "mode s = s_attr_mode s"


subsection \<open>Write path\<close>

text \<open>
  What \<^verbatim>\<open>async_set_native_value\<close> does to the outside, in order: a call of
  \<^verbatim>\<open>self._device.command(component, capability, command, args)\<close> and a call of
  \<^verbatim>\<open>self.async_write_ha_state()\<close>.
\<close>

datatype effect = Command string string string "int list" | WriteHaState

text \<open>
  \<open>device_command\<close> is the device's remote command: it returns a bool or raises. The
  result is the trace of effects and the outcome (\<^verbatim>\<open>None\<close> or the exception).
\<close>

definition async_set_native_value ::
  "(string \<Rightarrow> string \<Rightarrow> string \<Rightarrow> int list \<Rightarrow> error + bool) \<Rightarrow>
   SmartThingsNumber \<Rightarrow> pyfloat \<Rightarrow> effect list \<times> (error + unit)" where
  "async_set_native_value device_command s v =
     (case py_int v of
        Inl e \<Rightarrow> ([], Inl e)
      | Inr n \<Rightarrow>
          (case device_command (s_component s) ''thermostatCoolingSetpoint''
                  ''setCoolingSetpoint'' [n] of
             Inl e \<Rightarrow>
               ([Command (s_component s) ''thermostatCoolingSetpoint''
                   ''setCoolingSetpoint'' [n]], Inl e)
           | Inr ok \<Rightarrow>
               ([Command (s_component s) ''thermostatCoolingSetpoint''
                   ''setCoolingSetpoint'' [n], WriteHaState], Inr ())))"

section \<open>The entity factory\<close>

text \<open>
  The broker: \<^verbatim>\<open>broker.devices.values()\<close> in iteration order, and
  \<^verbatim>\<open>broker.get_assigned(device_id, platform)\<close>.
\<close>

record Broker =
  devices :: "DeviceEntity list"
  get_assigned :: "string \<Rightarrow> string \<Rightarrow> string list"

text \<open>
  The first loop of \<^verbatim>\<open>async_setup_entry\<close> over the assigned capabilities of one
  device; \<open>numbers\<close> is the list being extended.
\<close>

fun first_loop ::
  "constants \<Rightarrow> DeviceEntity \<Rightarrow> string list \<Rightarrow> SmartThingsNumber list \<Rightarrow>
   error + SmartThingsNumber list" where
  "first_loop K device [] numbers = Inr numbers"
| "first_loop K device (capability # rest) numbers =
     (case lookup K capability of
        Inl e \<Rightarrow> Inl e
      | Inr maps \<Rightarrow>
          first_loop K device rest (numbers @ map (new_number device ''main'') maps))"

text \<open>The inner loop over \<^verbatim>\<open>device.components[component]\<close>.\<close>

fun capability_loop ::
  "constants \<Rightarrow> DeviceEntity \<Rightarrow> string list \<Rightarrow> string \<Rightarrow> string list \<Rightarrow>
   SmartThingsNumber list \<Rightarrow> error + SmartThingsNumber list" where
  "capability_loop K device device_capabilities_for_number component [] numbers =
     Inr numbers"
| "capability_loop K device device_capabilities_for_number component (capability # rest)
     numbers =
     (if capability \<notin> set device_capabilities_for_number then
        capability_loop K device device_capabilities_for_number component rest numbers
      else
        (case lookup K capability of
           Inl e \<Rightarrow> Inl e
         | Inr maps \<Rightarrow>
             capability_loop K device device_capabilities_for_number component rest
               (numbers @ map (new_number device component) maps)))"

text \<open>
  The loop \<^verbatim>\<open>for component in device.components\<close> over the keys, each followed
  by the subscript \<^verbatim>\<open>device.components[component]\<close>.
\<close>

fun component_loop ::
  "constants \<Rightarrow> DeviceEntity \<Rightarrow> string list \<Rightarrow> string list \<Rightarrow>
   SmartThingsNumber list \<Rightarrow> error + SmartThingsNumber list" where
  "component_loop K device device_capabilities_for_number [] numbers = Inr numbers"
| "component_loop K device device_capabilities_for_number (component # rest) numbers =
     (case getitem (map_of (components device)) component of
        Inl e \<Rightarrow> Inl e
      | Inr capabilities \<Rightarrow>
          (case capability_loop K device device_capabilities_for_number component
                  capabilities numbers of
             Inl e \<Rightarrow> Inl e
           | Inr numbers' \<Rightarrow>
               component_loop K device device_capabilities_for_number rest numbers'))"

text \<open>The body of \<^verbatim>\<open>for device in broker.devices.values()\<close>.\<close>

definition device_body ::
  "constants \<Rightarrow> Broker \<Rightarrow> DeviceEntity \<Rightarrow> SmartThingsNumber list \<Rightarrow>
   error + SmartThingsNumber list" where
  "device_body K broker device numbers =
     (case first_loop K device (get_assigned broker (device_id device) ''number'') numbers of
        Inl e \<Rightarrow> Inl e
      | Inr numbers' \<Rightarrow>
          component_loop K device (get_assigned broker (device_id device) ''number'')
            (map fst (components device)) numbers')"

fun device_loop ::
  "constants \<Rightarrow> Broker \<Rightarrow> DeviceEntity list \<Rightarrow> SmartThingsNumber list \<Rightarrow>
   error + SmartThingsNumber list" where
  "device_loop K broker [] numbers = Inr numbers"
| "device_loop K broker (device # rest) numbers =
     (case device_body K broker device numbers of
        Inl e \<Rightarrow> Inl e
      | Inr numbers' \<Rightarrow> device_loop K broker rest numbers')"

text \<open>
  \<^verbatim>\<open>async_setup_entry\<close>: \<open>hass_data\<close> is \<^verbatim>\<open>hass.data\<close>, \<open>entry_id\<close> is
  \<^verbatim>\<open>config_entry.entry_id\<close>. The result \<open>Inr numbers\<close> is the one call
  \<^verbatim>\<open>async_add_entities(numbers)\<close>; on \<open>Inl e\<close> the exception left the function
  before that call.
\<close>

definition async_setup_entry ::
  "constants \<Rightarrow> (string \<rightharpoonup> (string \<rightharpoonup> (string \<rightharpoonup> Broker))) \<Rightarrow> string \<Rightarrow>
   error + SmartThingsNumber list" where
  "async_setup_entry K hass_data entry_id =
     (case getitem hass_data (DOMAIN K) of
        Inl e \<Rightarrow> Inl e
      | Inr domain_data \<Rightarrow>
          (case getitem domain_data (DATA_BROKERS K) of
             Inl e \<Rightarrow> Inl e
           | Inr brokers \<Rightarrow>
               (case getitem brokers entry_id of
                  Inl e \<Rightarrow> Inl e
                | Inr broker \<Rightarrow> device_loop K broker (devices broker) [])))"

text \<open>\<^verbatim>\<open>get_capabilities\<close>: the comprehension over the keys of the registry.\<close>

definition get_capabilities :: "constants \<Rightarrow> string list \<Rightarrow> string list" where
  "get_capabilities K capabilities =
     filter (\<lambda>capability. capability \<in> set capabilities) (map fst (CAPABILITY_TO_NUMBER K))"

section \<open>Example values\<close>

text \<open>
  Concrete values for the imported names, used where a statement is evaluated on a
  concrete input. No statement below depends on these particular strings.
\<close>

definition example_consts :: constants where
  "example_consts =
     \<lparr>Capability_thermostat_cooling_setpoint = ''thermostatCoolingSetpoint'',
      Attribute_cooling_setpoint = ''coolingSetpoint'',
      DOMAIN = ''smartthings'',
      DATA_BROKERS = ''brokers'',
      UnitOfTemperature_CELSIUS = ''degC'',
      UnitOfTemperature_FAHRENHEIT = ''degF'',
      NumberMode_AUTO = ''auto''\<rparr>"

definition example_map :: Map_tuple where
  "example_map = hd (snd (hd (CAPABILITY_TO_NUMBER example_consts)))"

text \<open>
  A fridge with the components "cooler" (status unit F) and "freezer" (status unit C),
  and a second status snapshot of it whose cooler reports the unit K and whose freezer
  has no entry. The status objects are built as the spec describes them.
\<close>

definition fridge_cache :: "(string \<times> string) \<rightharpoonup> Status" where
  "fridge_cache =
     [(''cooler'', ''coolingSetpoint'') \<mapsto>
        \<lparr>status_value = Some (Finite 37), status_unit = Some ''F''\<rparr>,
      (''freezer'', ''coolingSetpoint'') \<mapsto>
        \<lparr>status_value = Some (Finite (- 18)), status_unit = Some ''C''\<rparr>]"

definition fridge :: DeviceEntity where
  "fridge =
     \<lparr>device_id = ''fridge-1'',
      label = ''Fridge'',
      components =
        [(''cooler'', [''thermostatCoolingSetpoint'']),
         (''freezer'', [''thermostatCoolingSetpoint''])],
      status = spec_status fridge_cache\<rparr>"

definition fridge_kelvin_cache :: "(string \<times> string) \<rightharpoonup> Status" where
  "fridge_kelvin_cache =
     [(''cooler'', ''coolingSetpoint'') \<mapsto>
        \<lparr>status_value = Some (Finite 276), status_unit = Some ''K''\<rparr>]"

definition fridge_kelvin :: DeviceEntity where
  "fridge_kelvin = fridge\<lparr>status := spec_status fridge_kelvin_cache\<rparr>"

text \<open>
  A thermostat whose main component and whose component "room2" report the cooling
  setpoint in C, and whose \<^verbatim>\<open>components\<close> dict lists "room2" with that capability.
  Three more snapshots of it: the main entry with no unit, no entry at all, and a status
  object whose subscripts raise.
\<close>

definition thermostat_cache :: "(string \<times> string) \<rightharpoonup> Status" where
  "thermostat_cache =
     [(''main'', ''coolingSetpoint'') \<mapsto>
        \<lparr>status_value = Some (Finite 21), status_unit = Some ''C''\<rparr>,
      (''room2'', ''coolingSetpoint'') \<mapsto>
        \<lparr>status_value = Some (Finite 19), status_unit = Some ''C''\<rparr>]"

definition thermostat :: DeviceEntity where
  "thermostat =
     \<lparr>device_id = ''dev-1'',
      label = ''Thermostat'',
      components = [(''room2'', [''thermostatCoolingSetpoint''])],
      status = spec_status thermostat_cache\<rparr>"

definition thermostat_no_unit_cache :: "(string \<times> string) \<rightharpoonup> Status" where
  "thermostat_no_unit_cache =
     [(''main'', ''coolingSetpoint'') \<mapsto>
        \<lparr>status_value = Some (Finite 21), status_unit = None\<rparr>]"

definition thermostat_no_unit :: DeviceEntity where
  "thermostat_no_unit = thermostat\<lparr>status := spec_status thermostat_no_unit_cache\<rparr>"

definition thermostat_empty_status :: DeviceEntity where
  "thermostat_empty_status = thermostat\<lparr>status := spec_status Map.empty\<rparr>"

definition thermostat_unreadable :: DeviceEntity where
  "thermostat_unreadable =
     thermostat\<lparr>status :=
       \<lparr>attributes = (\<lambda>a. Inl (Raised ''unavailable'')),
        status_components = (\<lambda>c.
          if c = ''room2'' then Inr (\<lambda>a. Inl (KeyError a)) else Inl (KeyError c))\<rparr>\<rparr>"

text \<open>
  A broker holding the thermostat, with the cooling setpoint assigned to the platform
  "number", one holding the fridge and the thermostat, and one that assigns a capability
  the registry does not know.
\<close>

definition example_broker :: Broker where
  "example_broker =
     \<lparr>devices = [thermostat],
      get_assigned = (\<lambda>device_id platform.
        if platform = ''number'' then [''thermostatCoolingSetpoint''] else [])\<rparr>"

definition house_broker :: Broker where
  "house_broker =
     \<lparr>devices = [fridge, thermostat],
      get_assigned = (\<lambda>device_id platform.
        if platform = ''number'' then [''thermostatCoolingSetpoint''] else [])\<rparr>"

definition unknown_broker :: Broker where
  "unknown_broker =
     \<lparr>devices = [thermostat],
      get_assigned = (\<lambda>device_id platform.
        if platform = ''number'' then [''switchLevel''] else [])\<rparr>"

definition hass_data_of :: "Broker \<Rightarrow> (string \<rightharpoonup> (string \<rightharpoonup> (string \<rightharpoonup> Broker)))" where
  "hass_data_of broker = [''smartthings'' \<mapsto> [''brokers'' \<mapsto> [''entry-1'' \<mapsto> broker]]]"

text \<open>A remote command that succeeds, and one that raises.\<close>

definition command_ok :: "string \<Rightarrow> string \<Rightarrow> string \<Rightarrow> int list \<Rightarrow> error + bool" where
  "command_ok component_id capability command args = Inr True"

definition command_fails :: "string \<Rightarrow> string \<Rightarrow> string \<Rightarrow> int list \<Rightarrow> error + bool" where
  "command_fails component_id capability command args = Inl (Raised ''timeout'')"

text \<open>The remote command calls of a trace.\<close>

fun is_command :: "effect \<Rightarrow> bool" where
  "is_command (Command component_id capability command args) = True"
| "is_command WriteHaState = False"

section \<open>Auxiliary facts\<close>

lemma trunc_toward_zero: "\<bar>of_int (trunc r)\<bar> \<le> \<bar>r\<bar> \<and> \<bar>r - of_int (trunc r)\<bar> < 1"
  unfolding trunc_def by (auto; linarith)

lemma trunc_double_21_7: "trunc (6108006994621235 / 281474976710656) = 21"
  by (simp add: trunc_def floor_eq_iff)
lemma trunc_double_minus_21_7: "trunc (- (6108006994621235 / 281474976710656)) = - 21"
  by (simp add: trunc_def ceiling_eq_iff)
lemma keys_registry: "map fst (CAPABILITY_TO_NUMBER K) = [Capability_thermostat_cooling_setpoint K]"
  by (simp add: CAPABILITY_TO_NUMBER_def)

lemma lookup_known:
  "\<exists>m. lookup K (Capability_thermostat_cooling_setpoint K) = Inr [m] \<and> m_attribute m = Attribute_cooling_setpoint K"
  by (simp add: lookup_def getitem_def CAPABILITY_TO_NUMBER_def)

lemma lookup_unknown:
  "c \<noteq> Capability_thermostat_cooling_setpoint K \<Longrightarrow> lookup K c = Inl (KeyError c)"
  by (simp add: lookup_def getitem_def CAPABILITY_TO_NUMBER_def)

lemma getitem_key: "k \<in> fst ` set xs \<Longrightarrow> \<exists>v. getitem (map_of xs) k = Inr v"
proof (cases "map_of xs k")
  case None
  assume "k \<in> fst ` set xs"
  with None show ?thesis by (simp add: map_of_eq_None_iff)
next
  case (Some v)
  then show ?thesis by (simp add: getitem_def)
qed

lemma first_loop_ok:
  "\<forall>c \<in> set caps. c = Capability_thermostat_cooling_setpoint K \<Longrightarrow> \<exists>r. first_loop K d caps acc = Inr r"
proof (induction caps arbitrary: acc)
  case Nil
  then show ?case by simp
next
  case (Cons c caps)
  obtain m where "lookup K c = Inr [m]" using lookup_known Cons.prems by auto
  then show ?case using Cons by simp
qed

lemma first_loop_bad:
  "\<exists>c \<in> set caps. c \<noteq> Capability_thermostat_cooling_setpoint K \<Longrightarrow>
   \<exists>c' \<in> set caps. c' \<noteq> Capability_thermostat_cooling_setpoint K \<and> first_loop K d caps acc = Inl (KeyError c')"
proof (induction caps arbitrary: acc)
  case Nil
  then show ?case by simp
next
  case (Cons c caps)
  show ?case
  proof (cases "c = Capability_thermostat_cooling_setpoint K")
    case True
    obtain m where m: "lookup K c = Inr [m]" using lookup_known True by auto
    from True Cons.prems have "\<exists>c \<in> set caps. c \<noteq> Capability_thermostat_cooling_setpoint K" by auto
    from Cons.IH[OF this] m show ?thesis by auto
  next
    case False
    then show ?thesis by (simp add: lookup_unknown)
  qed
qed

lemma capability_loop_ok:
  "\<forall>c \<in> set A. c = Capability_thermostat_cooling_setpoint K \<Longrightarrow>
   \<exists>r. capability_loop K d A cmp caps acc = Inr r"
proof (induction caps arbitrary: acc)
  case Nil
  then show ?case by simp
next
  case (Cons c caps)
  show ?case
  proof (cases "c \<in> set A")
    case True
    with Cons.prems have "c = Capability_thermostat_cooling_setpoint K" by simp
    then obtain m where "lookup K c = Inr [m]" using lookup_known[of K] by auto
    then show ?thesis using Cons True by simp
  next
    case False
    then show ?thesis using Cons by simp
  qed
qed

lemma component_loop_ok:
  "\<forall>c \<in> set A. c = Capability_thermostat_cooling_setpoint K \<Longrightarrow>
   set comps \<subseteq> fst ` set (components d) \<Longrightarrow>
   \<exists>r. component_loop K d A comps acc = Inr r"
proof (induction comps arbitrary: acc)
  case Nil
  then show ?case by simp
next
  case (Cons c comps)
  from Cons.prems(2) have "c \<in> fst ` set (components d)" by simp
  then obtain caps where g: "getitem (map_of (components d)) c = Inr caps"
    using getitem_key by blast
  obtain r where r: "capability_loop K d A c caps acc = Inr r"
    using capability_loop_ok[OF Cons.prems(1)] by blast
  from Cons.prems(2) have "set comps \<subseteq> fst ` set (components d)" by simp
  from Cons.IH[OF Cons.prems(1) this] g r show ?case by simp
qed

lemma device_body_ok:
  "\<forall>c \<in> set (get_assigned broker (device_id d) ''number''). c = Capability_thermostat_cooling_setpoint K \<Longrightarrow>
   \<exists>r. device_body K broker d acc = Inr r"
  using first_loop_ok[of "get_assigned broker (device_id d) ''number''" K d acc]
    component_loop_ok[of "get_assigned broker (device_id d) ''number''" K "map fst (components d)" d]
  by (auto simp: device_body_def)

lemma device_body_bad:
  "\<exists>c \<in> set (get_assigned broker (device_id d) ''number''). c \<noteq> Capability_thermostat_cooling_setpoint K \<Longrightarrow>
   \<exists>c' \<in> set (get_assigned broker (device_id d) ''number''). c' \<noteq> Capability_thermostat_cooling_setpoint K
      \<and> device_body K broker d acc = Inl (KeyError c')"
  using first_loop_bad[of "get_assigned broker (device_id d) ''number''" K d acc]
  by (auto simp: device_body_def)

lemma device_loop_bad:
  "\<exists>d \<in> set ds. \<exists>c \<in> set (get_assigned broker (device_id d) ''number''). c \<noteq> Capability_thermostat_cooling_setpoint K \<Longrightarrow>
   \<exists>d' \<in> set ds. \<exists>c' \<in> set (get_assigned broker (device_id d') ''number'').
      c' \<noteq> Capability_thermostat_cooling_setpoint K \<and> device_loop K broker ds acc = Inl (KeyError c')"
proof (induction ds arbitrary: acc)
  case Nil
  then show ?case by simp
next
  case (Cons d ds)
  show ?case
  proof (cases "\<forall>c \<in> set (get_assigned broker (device_id d) ''number''). c = Capability_thermostat_cooling_setpoint K")
    case True
    then obtain r where r: "device_body K broker d acc = Inr r" using device_body_ok by blast
    from True Cons.prems have "\<exists>d \<in> set ds. \<exists>c \<in> set (get_assigned broker (device_id d) ''number''). c \<noteq> Capability_thermostat_cooling_setpoint K"
      by auto
    from Cons.IH[OF this, of r] r show ?thesis by auto
  next
    case False
    then have "\<exists>c \<in> set (get_assigned broker (device_id d) ''number''). c \<noteq> Capability_thermostat_cooling_setpoint K" by blast
    from device_body_bad[OF this, where acc = acc] show ?thesis by auto
  qed
qed

lemma device_loop_ok:
  "\<forall>d \<in> set ds. \<forall>c \<in> set (get_assigned broker (device_id d) ''number'').
      c = Capability_thermostat_cooling_setpoint K \<Longrightarrow>
   \<exists>r. device_loop K broker ds acc = Inr r"
proof (induction ds arbitrary: acc)
  case Nil
  then show ?case by simp
next
  case (Cons d ds)
  from Cons.prems obtain r where r: "device_body K broker d acc = Inr r"
    using device_body_ok [of broker d K acc] by auto
  from Cons.prems have "\<forall>d \<in> set ds. \<forall>c \<in> set (get_assigned broker (device_id d) ''number'').
      c = Capability_thermostat_cooling_setpoint K" by simp
  from Cons.IH [OF this, of r] r show ?case by simp
qed

lemma first_loop_set:
  "first_loop K d caps acc = Inr r \<Longrightarrow>
   set r = set acc \<union>
     {new_number d ''main'' m | c maps m.
        c \<in> set caps \<and> lookup K c = Inr maps \<and> m \<in> set maps}"
proof (induction caps arbitrary: acc)
  case Nil
  then show ?case by auto
next
  case (Cons c caps)
  from Cons.prems obtain maps where l: "lookup K c = Inr maps"
    and r: "first_loop K d caps (acc @ map (new_number d ''main'') maps) = Inr r"
    by (auto split: sum.splits)
  from Cons.IH [OF r] l show ?case by auto
qed

lemma capability_loop_set:
  "capability_loop K d A cmp caps acc = Inr r \<Longrightarrow>
   set r = set acc \<union>
     {new_number d cmp m | c maps m.
        c \<in> set caps \<and> c \<in> set A \<and> lookup K c = Inr maps \<and> m \<in> set maps}"
proof (induction caps arbitrary: acc)
  case Nil
  then show ?case by auto
next
  case (Cons c caps)
  show ?case
  proof (cases "c \<in> set A")
    case True
    with Cons.prems obtain maps where l: "lookup K c = Inr maps"
      and r: "capability_loop K d A cmp caps (acc @ map (new_number d cmp) maps) = Inr r"
      by (auto split: sum.splits)
    from Cons.IH [OF r] l True show ?thesis by auto
  next
    case False
    with Cons.prems have "capability_loop K d A cmp caps acc = Inr r" by simp
    from Cons.IH [OF this] False show ?thesis by auto
  qed
qed

lemma component_loop_set:
  "component_loop K d A cmps acc = Inr r \<Longrightarrow>
   set r = set acc \<union>
     {new_number d cmp m | cmp caps c maps m.
        cmp \<in> set cmps \<and> map_of (components d) cmp = Some caps \<and>
        c \<in> set caps \<and> c \<in> set A \<and> lookup K c = Inr maps \<and> m \<in> set maps}"
proof (induction cmps arbitrary: acc)
  case Nil
  then show ?case by auto
next
  case (Cons cmp cmps)
  from Cons.prems obtain caps r' where g: "map_of (components d) cmp = Some caps"
    and c: "capability_loop K d A cmp caps acc = Inr r'"
    and r: "component_loop K d A cmps r' = Inr r"
    by (auto simp: getitem_def split: sum.splits option.splits)
  from Cons.IH [OF r] capability_loop_set [OF c] g show ?case by (auto; blast)
qed

lemma device_body_set:
  "device_body K broker d acc = Inr r \<Longrightarrow>
   set r = set acc \<union>
     {new_number d ''main'' m | c maps m.
        c \<in> set (get_assigned broker (device_id d) ''number'') \<and>
        lookup K c = Inr maps \<and> m \<in> set maps} \<union>
     {new_number d cmp m | cmp caps c maps m.
        cmp \<in> fst ` set (components d) \<and> map_of (components d) cmp = Some caps \<and>
        c \<in> set caps \<and> c \<in> set (get_assigned broker (device_id d) ''number'') \<and>
        lookup K c = Inr maps \<and> m \<in> set maps}"
proof -
  assume a: "device_body K broker d acc = Inr r"
  then obtain r' where f: "first_loop K d (get_assigned broker (device_id d) ''number'') acc = Inr r'"
    and c: "component_loop K d (get_assigned broker (device_id d) ''number'')
              (map fst (components d)) r' = Inr r"
    by (auto simp: device_body_def split: sum.splits)
  from first_loop_set [OF f] component_loop_set [OF c] show ?thesis by auto
qed

lemma device_loop_member:
  "device_loop K broker ds acc = Inr r \<Longrightarrow> d \<in> set ds \<Longrightarrow>
   c \<in> set (get_assigned broker (device_id d) ''number'') \<Longrightarrow>
   lookup K c = Inr maps \<Longrightarrow> m \<in> set maps \<Longrightarrow>
   new_number d ''main'' m \<in> set r \<and>
   (\<forall>cmp caps. map_of (components d) cmp = Some caps \<and> c \<in> set caps \<longrightarrow>
      new_number d cmp m \<in> set r)"
  and device_loop_acc: "device_loop K broker ds acc = Inr r \<Longrightarrow> set acc \<subseteq> set r"
  and device_loop_origin:
  "device_loop K broker ds acc = Inr r \<Longrightarrow> n \<in> set r \<Longrightarrow> n \<notin> set acc \<Longrightarrow>
   s_device n \<in> set ds \<and>
   (s_component n = ''main'' \<or>
    (\<exists>caps c. map_of (components (s_device n)) (s_component n) = Some caps \<and>
       c \<in> set caps \<and>
       c \<in> set (get_assigned broker (device_id (s_device n)) ''number'')))"
proof (induction ds arbitrary: acc)
  case Nil
  { case 1 then show ?case by simp }
  { case 2 then show ?case by simp }
  { case 3 then show ?case by simp }
next
  case (Cons d' ds)
  { case 1
    from "1.prems"(1) obtain r' where b: "device_body K broker d' acc = Inr r'"
      and l: "device_loop K broker ds r' = Inr r"
      by (auto split: sum.splits)
    show ?case
    proof (cases "d = d'")
      case True
      have "map_of (components d) cmp = Some caps \<Longrightarrow> cmp \<in> fst ` set (components d)"
        for cmp caps
        by (metis map_of_eq_None_iff option.distinct(1))
      with device_body_set [OF b] True "1.prems"(3,4,5)
      have "new_number d ''main'' m \<in> set r' \<and>
        (\<forall>cmp caps. map_of (components d) cmp = Some caps \<and> c \<in> set caps \<longrightarrow>
           new_number d cmp m \<in> set r')"
        by blast
      with Cons.IH(2) [OF l] show ?thesis by blast
    next
      case False
      with "1.prems"(2) have "d \<in> set ds" by simp
      from Cons.IH(1) [OF l this "1.prems"(3,4,5)] show ?thesis .
    qed }
  { case 2
    from "2.prems" obtain r' where b: "device_body K broker d' acc = Inr r'"
      and l: "device_loop K broker ds r' = Inr r"
      by (auto split: sum.splits)
    from device_body_set [OF b] Cons.IH(2) [OF l] show ?case by blast }
  { case 3
    from "3.prems"(1) obtain r' where b: "device_body K broker d' acc = Inr r'"
      and l: "device_loop K broker ds r' = Inr r"
      by (auto split: sum.splits)
    show ?case
    proof (cases "n \<in> set r'")
      case True
      with device_body_set [OF b] "3.prems"(3) show ?thesis
        by (auto simp: new_number_def)
    next
      case False
      from Cons.IH(3) [OF l "3.prems"(2) False] show ?thesis by simp
    qed }
qed

lemma example_map_fields:
  "m_attribute example_map = ''coolingSetpoint''"
  "m_name example_map = ''Cooling Setpoint''"
  "m_command example_map = ''set_cooling_setpoint''"
  "m_min_value example_map = - 22"
  "m_max_value example_map = 500"
  "m_unit_of_measurement example_map = None"
  by (simp_all add: example_map_def CAPABILITY_TO_NUMBER_def example_consts_def)

lemma example_consts_fields:
  "Capability_thermostat_cooling_setpoint example_consts = ''thermostatCoolingSetpoint''"
  "Attribute_cooling_setpoint example_consts = ''coolingSetpoint''"
  "DOMAIN example_consts = ''smartthings''"
  "DATA_BROKERS example_consts = ''brokers''"
  by (simp_all add: example_consts_def)

lemma spec_status_subscripts:
  "attributes (spec_status cache) a = spec_attributes cache ''main'' a"
  "status_components (spec_status cache) c = Inr (spec_attributes cache c)"
  by (simp_all add: spec_status_def)

lemma example_statuses:
  "status fridge = spec_status fridge_cache"
  "status fridge_kelvin = spec_status fridge_kelvin_cache"
  "status thermostat = spec_status thermostat_cache"
  "status thermostat_no_unit = spec_status thermostat_no_unit_cache"
  "status thermostat_empty_status = spec_status Map.empty"
  by (simp_all add: fridge_def fridge_kelvin_def thermostat_def thermostat_no_unit_def
      thermostat_empty_status_def)

lemma example_cache_entries:
  "spec_attributes fridge_cache ''cooler'' ''coolingSetpoint'' =
     Inr \<lparr>status_value = Some (Finite 37), status_unit = Some ''F''\<rparr>"
  "spec_attributes fridge_cache ''freezer'' ''coolingSetpoint'' =
     Inr \<lparr>status_value = Some (Finite (- 18)), status_unit = Some ''C''\<rparr>"
  "spec_attributes fridge_kelvin_cache ''cooler'' ''coolingSetpoint'' =
     Inr \<lparr>status_value = Some (Finite 276), status_unit = Some ''K''\<rparr>"
  "spec_attributes fridge_kelvin_cache ''freezer'' ''coolingSetpoint'' = Inr default_entry"
  "spec_attributes thermostat_cache ''main'' ''coolingSetpoint'' =
     Inr \<lparr>status_value = Some (Finite 21), status_unit = Some ''C''\<rparr>"
  "spec_attributes thermostat_cache ''room2'' ''coolingSetpoint'' =
     Inr \<lparr>status_value = Some (Finite 19), status_unit = Some ''C''\<rparr>"
  "spec_attributes thermostat_no_unit_cache ''main'' ''coolingSetpoint'' =
     Inr \<lparr>status_value = Some (Finite 21), status_unit = None\<rparr>"
  "spec_attributes Map.empty c a = Inr default_entry"
  by (simp_all add: spec_attributes_def fridge_cache_def fridge_kelvin_cache_def
      thermostat_cache_def thermostat_no_unit_cache_def)

lemma example_number_fields:
  "s_device (new_number d c example_map) = d"
  "s_component (new_number d c example_map) = c"
  "s_attribute (new_number d c example_map) = ''coolingSetpoint''"
  "s_attr_native_min_value (new_number d c example_map) = - 22"
  "s_attr_native_max_value (new_number d c example_map) = 500"
  "s_attr_native_unit_of_measurement (new_number d c example_map) = None"
  by (simp_all add: new_number_def example_map_fields)



lemma setup_with_broker:
  "hass_data (DOMAIN K) = Some domain_data \<Longrightarrow> domain_data (DATA_BROKERS K) = Some brokers \<Longrightarrow>
   brokers entry_id = Some broker \<Longrightarrow>
   async_setup_entry K hass_data entry_id = device_loop K broker (devices broker) []"
  by (simp add: async_setup_entry_def getitem_def)

lemma example_lookups:
  "hass_data_of b ''smartthings'' = Some [''brokers'' \<mapsto> [''entry-1'' \<mapsto> b]]"
  "[''brokers'' \<mapsto> [''entry-1'' \<mapsto> b]] ''brokers'' = Some [''entry-1'' \<mapsto> b]"
  "[''entry-1'' \<mapsto> b] ''entry-1'' = Some b"
  by (simp_all add: hass_data_of_def)

section \<open>Properties of the module\<close>

text \<open>
  C7. The unique id of an entity is the device id, a dot and the attribute key when the
  component is "main", and the device id, the component and the attribute key joined by
  dots for any other component. The display name is composed the same way from the
  device label, the component and the descriptor's display name, joined by spaces, with
  the component left out exactly when it is "main". The last two conjuncts state it for
  an entity as the factory constructs it from a descriptor \<open>m\<close>.
\<close>

theorem unique_id_and_name:
  "unique_id s =
     device_id (s_device s) @ ''.'' @
       (if s_component s = ''main'' then [] else s_component s @ ''.'') @ s_attribute s
   \<and> name s =
     label (s_device s) @ '' '' @
       (if s_component s = ''main'' then [] else s_component s @ '' '') @ s_name s
   \<and> unique_id (new_number d c m) =
     (if c = ''main'' then device_id d @ ''.'' @ m_attribute m
      else device_id d @ ''.'' @ c @ ''.'' @ m_attribute m)
   \<and> name (new_number d c m) =
     (if c = ''main'' then label d @ '' '' @ m_name m
      else label d @ '' '' @ c @ '' '' @ m_name m)"
  by (simp add: unique_id_def name_def new_number_def)

theorem unique_id_and_name_witness:
  "unique_id (new_number thermostat ''main'' example_map) = ''dev-1.coolingSetpoint''
   \<and> unique_id (new_number fridge ''cooler'' example_map) = ''fridge-1.cooler.coolingSetpoint''
   \<and> name (new_number thermostat ''main'' example_map) = ''Thermostat Cooling Setpoint''
   \<and> name (new_number fridge ''cooler'' example_map) = ''Fridge cooler Cooling Setpoint''"
proof -
  have d: "device_id thermostat = ''dev-1''" "label thermostat = ''Thermostat''"
    "device_id fridge = ''fridge-1''" "label fridge = ''Fridge''"
    by (simp_all add: thermostat_def fridge_def)
  note a = unique_id_and_name [of s thermostat "''main''" example_map for s,
      THEN conjunct2, THEN conjunct2]
  note b = unique_id_and_name [of s fridge "''cooler''" example_map for s,
      THEN conjunct2, THEN conjunct2]
  from a b show ?thesis by (simp add: d example_map_fields)
qed

text \<open>
  C3. For an entity bound to the component "cooler" or "freezer", with the entry that
  the status cache holds for its component and attribute, the bounds are the fixed table
  values keyed by that entry's unit, whatever bounds the descriptor configured: cooler F
  gives 34 and 44, cooler C gives 1 and 6, freezer F gives -8 and 5, freezer C gives
  -22 and -15.
\<close>

theorem cooler_freezer_bounds:
  assumes "status_components (status (s_device s)) (s_component s) = Inr component_attributes"
    and "component_attributes (s_attribute s) = Inr entry"
  shows "(s_component s = ''cooler'' \<and> status_unit entry = Some ''F'' \<longrightarrow>
            native_min_value s = Inr 34 \<and> native_max_value s = Inr 44)
       \<and> (s_component s = ''cooler'' \<and> status_unit entry = Some ''C'' \<longrightarrow>
            native_min_value s = Inr 1 \<and> native_max_value s = Inr 6)
       \<and> (s_component s = ''freezer'' \<and> status_unit entry = Some ''F'' \<longrightarrow>
            native_min_value s = Inr (- 8) \<and> native_max_value s = Inr 5)
       \<and> (s_component s = ''freezer'' \<and> status_unit entry = Some ''C'' \<longrightarrow>
            native_min_value s = Inr (- 22) \<and> native_max_value s = Inr (- 15))"
proof -
  have "s_component s \<noteq> ''main'' \<Longrightarrow> status_entry s = Inr entry"
    using assms by (simp add: status_entry_def)
  then show ?thesis
    by (auto simp: native_min_value_def native_max_value_def Let_def)
qed

theorem cooler_freezer_bounds_witness:
  "s_attr_native_min_value (new_number fridge ''cooler'' example_map) = - 22
   \<and> s_attr_native_max_value (new_number fridge ''cooler'' example_map) = 500
   \<and> native_min_value (new_number fridge ''cooler'' example_map) = Inr 34
   \<and> native_max_value (new_number fridge ''cooler'' example_map) = Inr 44
   \<and> native_min_value (new_number fridge ''freezer'' example_map) = Inr (- 22)
   \<and> native_max_value (new_number fridge ''freezer'' example_map) = Inr (- 15)"
proof -
  note c = cooler_freezer_bounds [of "new_number fridge ''cooler'' example_map"
      "spec_attributes fridge_cache ''cooler''"
      "\<lparr>status_value = Some (Finite 37), status_unit = Some ''F''\<rparr>"]
  note f = cooler_freezer_bounds [of "new_number fridge ''freezer'' example_map"
      "spec_attributes fridge_cache ''freezer''"
      "\<lparr>status_value = Some (Finite (- 18)), status_unit = Some ''C''\<rparr>"]
  from c f show ?thesis
    by (simp add: example_number_fields example_statuses spec_status_subscripts
        example_cache_entries)
qed

text \<open>
  C4. With the entry that the status cache holds for the entity's component and
  attribute, the bounds are exactly the descriptor's configured ones for an entity bound
  to "main", for an entity bound to any other component that is neither "cooler" nor
  "freezer", and for a cooler or freezer entity whose cached unit is neither "F" nor
  "C". On the status cache as the spec describes it every read returns an entry, so
  there the bounds of every entity whose component is neither "cooler" nor "freezer"
  are the descriptor's, whether the cache holds its entry or not.
\<close>

theorem descriptor_bounds_fallback:
  "(s_component s = ''main'' \<and>
    attributes (status (s_device s)) (s_attribute s) = Inr entry \<longrightarrow>
            native_min_value s = Inr (s_attr_native_min_value s)
          \<and> native_max_value s = Inr (s_attr_native_max_value s))
   \<and> (s_component s \<noteq> ''main'' \<and> s_component s \<noteq> ''cooler'' \<and>
      s_component s \<noteq> ''freezer'' \<and>
      status_components (status (s_device s)) (s_component s) = Inr component_attributes \<and>
      component_attributes (s_attribute s) = Inr entry \<longrightarrow>
            native_min_value s = Inr (s_attr_native_min_value s)
          \<and> native_max_value s = Inr (s_attr_native_max_value s))
   \<and> ((s_component s = ''cooler'' \<or> s_component s = ''freezer'') \<and>
      status_components (status (s_device s)) (s_component s) = Inr component_attributes \<and>
      component_attributes (s_attribute s) = Inr entry \<and>
      status_unit entry \<noteq> Some ''F'' \<and> status_unit entry \<noteq> Some ''C'' \<longrightarrow>
            native_min_value s = Inr (s_attr_native_min_value s)
          \<and> native_max_value s = Inr (s_attr_native_max_value s))
   \<and> (status (s_device s) = spec_status cache \<and>
      s_component s \<noteq> ''cooler'' \<and> s_component s \<noteq> ''freezer'' \<longrightarrow>
            native_min_value s = Inr (s_attr_native_min_value s)
          \<and> native_max_value s = Inr (s_attr_native_max_value s))"
  by (auto simp: native_min_value_def native_max_value_def status_entry_def Let_def
      spec_status_def spec_attributes_def)

theorem descriptor_bounds_fallback_witness:
  "native_min_value (new_number thermostat ''main'' example_map) = Inr (- 22)
   \<and> native_max_value (new_number thermostat ''main'' example_map) = Inr 500
   \<and> native_min_value (new_number thermostat ''room2'' example_map) = Inr (- 22)
   \<and> native_max_value (new_number thermostat ''room2'' example_map) = Inr 500
   \<and> native_min_value (new_number fridge_kelvin ''cooler'' example_map) = Inr (- 22)
   \<and> native_max_value (new_number fridge_kelvin ''cooler'' example_map) = Inr 500
   \<and> native_min_value (new_number thermostat_empty_status ''room2'' example_map) = Inr (- 22)
   \<and> native_max_value (new_number thermostat_empty_status ''room2'' example_map) = Inr 500"
proof -
  note e = descriptor_bounds_fallback
      [where s = "new_number thermostat_empty_status ''room2'' example_map"
        and cache = Map.empty, THEN conjunct2, THEN conjunct2, THEN conjunct2]
  note m = descriptor_bounds_fallback [of "new_number thermostat ''main'' example_map"
      "\<lparr>status_value = Some (Finite 21), status_unit = Some ''C''\<rparr>",
      THEN conjunct1]
  note r = descriptor_bounds_fallback [of "new_number thermostat ''room2'' example_map"
      "\<lparr>status_value = Some (Finite 19), status_unit = Some ''C''\<rparr>"
      "spec_attributes thermostat_cache ''room2''",
      THEN conjunct2, THEN conjunct1]
  note k = descriptor_bounds_fallback [of "new_number fridge_kelvin ''cooler'' example_map"
      "\<lparr>status_value = Some (Finite 276), status_unit = Some ''K''\<rparr>"
      "spec_attributes fridge_kelvin_cache ''cooler''",
      THEN conjunct2, THEN conjunct2, THEN conjunct1]
  from m r k e show ?thesis
    by (simp add: example_number_fields example_statuses spec_status_subscripts
        example_cache_entries)
qed



text \<open>
  C10. \<^verbatim>\<open>native_min_value\<close> and \<^verbatim>\<open>native_max_value\<close> read the status entry
  before they look at the component: whenever a subscript of that read raises, both
  getters raise the same exception, for every component and whatever the descriptor's
  bounds. On the status cache as the spec describes it no subscript raises: an entry
  that the cache does not hold reads as an entry without unit, and both getters return
  the descriptor's configured bounds, for every component.
\<close>

theorem bounds_read_status_first:
  "(s_component s = ''main'' \<and>
    attributes (status (s_device s)) (s_attribute s) = Inl e \<longrightarrow>
      native_min_value s = Inl e \<and> native_max_value s = Inl e)
   \<and> (s_component s \<noteq> ''main'' \<and>
      status_components (status (s_device s)) (s_component s) = Inl e \<longrightarrow>
      native_min_value s = Inl e \<and> native_max_value s = Inl e)
   \<and> (s_component s \<noteq> ''main'' \<and>
      status_components (status (s_device s)) (s_component s) = Inr component_attributes \<and>
      component_attributes (s_attribute s) = Inl e \<longrightarrow>
      native_min_value s = Inl e \<and> native_max_value s = Inl e)
   \<and> (status (s_device s) = spec_status cache \<and>
      cache (s_component s, s_attribute s) = None \<longrightarrow>
            native_min_value s = Inr (s_attr_native_min_value s)
          \<and> native_max_value s = Inr (s_attr_native_max_value s))"
  by (auto simp: native_min_value_def native_max_value_def status_entry_def Let_def
      spec_status_def spec_attributes_def default_entry_def)

theorem bounds_read_status_first_witness:
  "native_min_value (new_number thermostat_unreadable ''main'' example_map) =
     Inl (Raised ''unavailable'')
   \<and> native_max_value (new_number thermostat_unreadable ''cooler'' example_map) =
     Inl (KeyError ''cooler'')
   \<and> native_min_value (new_number thermostat_unreadable ''room2'' example_map) =
     Inl (KeyError ''coolingSetpoint'')
   \<and> native_min_value (new_number fridge_kelvin ''freezer'' example_map) = Inr (- 22)
   \<and> native_max_value (new_number fridge_kelvin ''freezer'' example_map) = Inr 500"
proof -
  have u: "attributes (status thermostat_unreadable) a = Inl (Raised ''unavailable'')"
    "status_components (status thermostat_unreadable) ''cooler'' = Inl (KeyError ''cooler'')"
    "status_components (status thermostat_unreadable) ''room2'' = Inr (\<lambda>a. Inl (KeyError a))"
    for a
    by (simp_all add: thermostat_unreadable_def)
  have n: "fridge_kelvin_cache (''freezer'', ''coolingSetpoint'') = None"
    by (simp add: fridge_kelvin_cache_def)
  note a = bounds_read_status_first [of "new_number thermostat_unreadable ''main'' example_map"
      "Raised ''unavailable''", THEN conjunct1]
  note b = bounds_read_status_first [of "new_number thermostat_unreadable ''cooler'' example_map"
      "KeyError ''cooler''", THEN conjunct2, THEN conjunct1]
  note c = bounds_read_status_first [of "new_number thermostat_unreadable ''room2'' example_map"
      "KeyError ''coolingSetpoint''" "\<lambda>a. Inl (KeyError a)",
      THEN conjunct2, THEN conjunct2, THEN conjunct1]
  note d = bounds_read_status_first [of "new_number fridge_kelvin ''freezer'' example_map" _ _
      fridge_kelvin_cache, THEN conjunct2, THEN conjunct2, THEN conjunct2]
  from a b c d show ?thesis
    by (simp add: example_number_fields example_statuses u n)
qed

theorem absent_entry_counterexample:
  "status (s_device (new_number thermostat_empty_status ''main'' example_map)) =
     spec_status Map.empty
   \<and> native_min_value (new_number thermostat_empty_status ''main'' example_map) = Inr (- 22)
   \<and> native_max_value (new_number thermostat_empty_status ''main'' example_map) = Inr 500
   \<and> native_min_value (new_number thermostat_empty_status ''room2'' example_map) = Inr (- 22)
   \<and> native_max_value (new_number thermostat_empty_status ''room2'' example_map) = Inr 500"
  by (simp add: native_min_value_def native_max_value_def status_entry_def
      example_number_fields example_statuses spec_status_subscripts example_cache_entries
      default_entry_def)

text \<open>
  C1, for finite values. For every finite float value, \<^verbatim>\<open>async_set_native_value\<close> makes
  exactly one remote command call, addressed to the entity's component, with the
  capability "thermostatCoolingSetpoint", the command "setCoolingSetpoint" and the
  argument list holding the value truncated toward zero. The entity's own command name
  and attribute play no part. Truncation toward zero: the argument is no larger in
  magnitude than the value and less than 1 away from it. On a NaN or an infinity
  \<^verbatim>\<open>int(value)\<close> raises before any call, as \<open>set_value_nan_counterexample\<close> shows.
\<close>

theorem set_value_sends_cooling_setpoint:
  "filter is_command (fst (async_set_native_value device_command s (Finite r))) =
     [Command (s_component s) ''thermostatCoolingSetpoint'' ''setCoolingSetpoint'' [trunc r]]
   \<and> async_set_native_value device_command (s\<lparr>s_command := c, s_attribute := a\<rparr>) (Finite r) =
       async_set_native_value device_command s (Finite r)
   \<and> \<bar>of_int (trunc r)\<bar> \<le> \<bar>r\<bar> \<and> \<bar>r - of_int (trunc r)\<bar> < 1"
proof -
  have "filter is_command (fst (async_set_native_value device_command s (Finite r))) =
     [Command (s_component s) ''thermostatCoolingSetpoint'' ''setCoolingSetpoint'' [trunc r]]"
    by (simp add: async_set_native_value_def split: sum.split)
  moreover have "async_set_native_value device_command (s\<lparr>s_command := c, s_attribute := a\<rparr>) (Finite r) =
       async_set_native_value device_command s (Finite r)"
    by (simp add: async_set_native_value_def split: sum.split)
  ultimately show ?thesis using trunc_toward_zero [of r] by simp
qed

theorem set_value_sends_cooling_setpoint_witness:
  "filter is_command (fst (async_set_native_value command_ok
       (new_number fridge ''freezer'' example_map)
       (Finite (6108006994621235 / 281474976710656)))) =
     [Command ''freezer'' ''thermostatCoolingSetpoint'' ''setCoolingSetpoint'' [21]]
   \<and> filter is_command (fst (async_set_native_value command_fails
       (new_number thermostat ''main'' example_map)
       (Finite (- (6108006994621235 / 281474976710656))))) =
     [Command ''main'' ''thermostatCoolingSetpoint'' ''setCoolingSetpoint'' [- 21]]"
  using set_value_sends_cooling_setpoint [of command_ok "new_number fridge ''freezer'' example_map"
      "6108006994621235 / 281474976710656"]
    set_value_sends_cooling_setpoint [of command_fails "new_number thermostat ''main'' example_map"
      "- (6108006994621235 / 281474976710656)"]
  by (simp add: trunc_double_21_7 trunc_double_minus_21_7 new_number_def)

theorem set_value_nan_counterexample:
  "async_set_native_value command_ok (new_number thermostat ''main'' example_map) NaN =
     ([], Inl ValueError)
   \<and> filter is_command
       (fst (async_set_native_value command_ok (new_number thermostat ''main'' example_map) NaN)) = []
   \<and> async_set_native_value command_ok (new_number thermostat ''main'' example_map) PosInf =
     ([], Inl OverflowError)"
  by (simp add: async_set_native_value_def)

text \<open>
  C8. When the remote command call raises, \<^verbatim>\<open>async_set_native_value\<close> has made
  that one call and no other, raises the same exception, and has not called
  \<^verbatim>\<open>async_write_ha_state\<close>. The state write happens exactly when the command call
  returned.
\<close>

theorem command_failure_propagates:
  "(py_int v = Inr n \<and>
    device_command (s_component s) ''thermostatCoolingSetpoint'' ''setCoolingSetpoint'' [n] = Inl e \<longrightarrow>
      async_set_native_value device_command s v =
        ([Command (s_component s) ''thermostatCoolingSetpoint'' ''setCoolingSetpoint'' [n]], Inl e))
   \<and> (WriteHaState \<in> set (fst (async_set_native_value device_command s v)) \<longleftrightarrow>
        (\<exists>n ok. py_int v = Inr n \<and>
           device_command (s_component s) ''thermostatCoolingSetpoint'' ''setCoolingSetpoint'' [n] = Inr ok))"
  by (auto simp: async_set_native_value_def split: sum.splits)

theorem command_failure_propagates_witness:
  "async_set_native_value command_fails (new_number fridge ''cooler'' example_map) (Finite 38) =
     ([Command ''cooler'' ''thermostatCoolingSetpoint'' ''setCoolingSetpoint'' [38]],
      Inl (Raised ''timeout''))
   \<and> WriteHaState \<notin> set (fst (async_set_native_value command_fails
        (new_number fridge ''cooler'' example_map) (Finite 38)))"
proof -
  have p: "py_int (Finite 38) = Inr 38" by (simp add: trunc_def)
  have c: "command_fails (s_component (new_number fridge ''cooler'' example_map))
      ''thermostatCoolingSetpoint'' ''setCoolingSetpoint'' [38] = Inl (Raised ''timeout'')"
    by (simp add: command_fails_def)
  have n: "s_component (new_number fridge ''cooler'' example_map) = ''cooler''"
    by (simp add: new_number_def)
  from command_failure_propagates [of "Finite 38" 38 command_fails
      "new_number fridge ''cooler'' example_map" "Raised ''timeout''"] p c n
  show ?thesis by simp
qed

text \<open>
  C9. \<^verbatim>\<open>get_capabilities\<close> returns a list: the keys of the registry that occur in
  its input, in the registry's order. With the one key the registry has, that is the
  singleton of the cooling setpoint capability when the input holds it and the empty
  list otherwise. The result is a subsequence of the registry's keys, its elements are
  the keys that occur in the input, and it is empty exactly when no input capability
  is a key.
\<close>

theorem get_capabilities_registry_keys:
  "get_capabilities K capabilities =
     (if Capability_thermostat_cooling_setpoint K \<in> set capabilities
      then [Capability_thermostat_cooling_setpoint K] else [])
   \<and> subseq (get_capabilities K capabilities) (map fst (CAPABILITY_TO_NUMBER K))
   \<and> set (get_capabilities K capabilities) =
       set (map fst (CAPABILITY_TO_NUMBER K)) \<inter> set capabilities
   \<and> (get_capabilities K capabilities = [] \<longleftrightarrow>
       set capabilities \<inter> set (map fst (CAPABILITY_TO_NUMBER K)) = {})"
proof -
  have 1: "get_capabilities K capabilities =
     (if Capability_thermostat_cooling_setpoint K \<in> set capabilities
      then [Capability_thermostat_cooling_setpoint K] else [])"
    by (simp add: get_capabilities_def keys_registry)
  have 2: "subseq (get_capabilities K capabilities) (map fst (CAPABILITY_TO_NUMBER K))"
    unfolding get_capabilities_def by (rule subseq_filter_left)
  have 3: "set (get_capabilities K capabilities) =
       set (map fst (CAPABILITY_TO_NUMBER K)) \<inter> set capabilities"
    unfolding get_capabilities_def by auto
  have 4: "get_capabilities K capabilities = [] \<longleftrightarrow>
       set capabilities \<inter> set (map fst (CAPABILITY_TO_NUMBER K)) = {}"
    by (simp add: 1 keys_registry)
  from 1 2 3 4 show ?thesis by blast
qed

theorem get_capabilities_registry_keys_witness:
  "get_capabilities example_consts [''switch'', ''thermostatCoolingSetpoint'', ''switch''] =
     [''thermostatCoolingSetpoint'']
   \<and> get_capabilities example_consts [''switch'', ''switchLevel''] = []
   \<and> get_capabilities example_consts [] = []"
  using get_capabilities_registry_keys [of example_consts "[''switch'', ''thermostatCoolingSetpoint'', ''switch'']"]
    get_capabilities_registry_keys [of example_consts "[''switch'', ''switchLevel'']"]
    get_capabilities_registry_keys [of example_consts "[]"]
  by (simp add: example_consts_def)

text \<open>
  C5. The subscript \<^verbatim>\<open>CAPABILITY_TO_NUMBER[capability]\<close> returns a non-empty list
  of descriptors for every key of the registry and raises \<^verbatim>\<open>KeyError\<close> for any other
  identifier. The factory uses the bare subscript: when some device of the broker has
  an assigned capability that is not a key, \<^verbatim>\<open>async_setup_entry\<close> raises the
  \<^verbatim>\<open>KeyError\<close> of such a capability and never reaches \<^verbatim>\<open>async_add_entities\<close>.
\<close>

theorem registry_lookup:
  "(c \<in> set (map fst (CAPABILITY_TO_NUMBER K)) \<longrightarrow>
      (\<exists>maps. lookup K c = Inr maps \<and> maps \<noteq> []))
   \<and> (c \<notin> set (map fst (CAPABILITY_TO_NUMBER K)) \<longrightarrow> lookup K c = Inl (KeyError c))
   \<and> (hass_data (DOMAIN K) = Some domain_data \<and> domain_data (DATA_BROKERS K) = Some brokers \<and>
       brokers entry_id = Some broker \<and> d \<in> set (devices broker) \<and>
       c \<in> set (get_assigned broker (device_id d) ''number'') \<and>
       c \<notin> set (map fst (CAPABILITY_TO_NUMBER K)) \<longrightarrow>
        (\<exists>d' \<in> set (devices broker). \<exists>c' \<in> set (get_assigned broker (device_id d') ''number'').
           c' \<notin> set (map fst (CAPABILITY_TO_NUMBER K)) \<and>
           async_setup_entry K hass_data entry_id = Inl (KeyError c')))"
proof (intro conjI impI)
  assume "c \<in> set (map fst (CAPABILITY_TO_NUMBER K))"
  then have "c = Capability_thermostat_cooling_setpoint K" by (simp add: keys_registry)
  then show "\<exists>maps. lookup K c = Inr maps \<and> maps \<noteq> []"
    using lookup_known [of K] by auto
next
  assume "c \<notin> set (map fst (CAPABILITY_TO_NUMBER K))"
  then show "lookup K c = Inl (KeyError c)"
    by (simp add: keys_registry lookup_unknown)
next
  assume a: "hass_data (DOMAIN K) = Some domain_data \<and> domain_data (DATA_BROKERS K) = Some brokers \<and>
       brokers entry_id = Some broker \<and> d \<in> set (devices broker) \<and>
       c \<in> set (get_assigned broker (device_id d) ''number'') \<and>
       c \<notin> set (map fst (CAPABILITY_TO_NUMBER K))"
  then have s: "async_setup_entry K hass_data entry_id = device_loop K broker (devices broker) []"
    by (simp add: setup_with_broker)
  from a have "\<exists>d \<in> set (devices broker).
      \<exists>c \<in> set (get_assigned broker (device_id d) ''number'').
        c \<noteq> Capability_thermostat_cooling_setpoint K"
    by (auto simp: keys_registry)
  from device_loop_bad [OF this, of "[]"] s
  show "\<exists>d' \<in> set (devices broker). \<exists>c' \<in> set (get_assigned broker (device_id d') ''number'').
           c' \<notin> set (map fst (CAPABILITY_TO_NUMBER K)) \<and>
           async_setup_entry K hass_data entry_id = Inl (KeyError c')"
    by (simp add: keys_registry)
qed

theorem registry_lookup_witness:
  "lookup example_consts ''thermostatCoolingSetpoint'' = Inr [example_map]
   \<and> lookup example_consts ''switchLevel'' = Inl (KeyError ''switchLevel'')
   \<and> async_setup_entry example_consts (hass_data_of unknown_broker) ''entry-1'' =
       Inl (KeyError ''switchLevel'')"
proof -
  have k: "fst ` set (CAPABILITY_TO_NUMBER example_consts) = {''thermostatCoolingSetpoint''}"
    by (simp add: CAPABILITY_TO_NUMBER_def example_consts_def)
  have l: "lookup example_consts ''thermostatCoolingSetpoint'' = Inr [example_map]"
    by (simp add: lookup_def getitem_def example_map_def CAPABILITY_TO_NUMBER_def example_consts_def)
  have b: "devices unknown_broker = [thermostat]"
    "get_assigned unknown_broker (device_id thermostat) ''number'' = [''switchLevel'']"
    by (simp_all add: unknown_broker_def)
  from registry_lookup [of "''switchLevel''" example_consts "hass_data_of unknown_broker"
      "[''brokers'' \<mapsto> [''entry-1'' \<mapsto> unknown_broker]]" "[''entry-1'' \<mapsto> unknown_broker]"
      "''entry-1''" unknown_broker thermostat] l
  show ?thesis by (simp add: k b example_lookups example_consts_fields)
qed

text \<open>
  C2, as the factory behaves. The skip test of the component loop looks at the
  capability alone. Whenever every assigned capability is a key of the registry the
  factory returns. Whenever it returns, for a device of the broker whose assigned
  result contains the cooling setpoint capability and whose \<^verbatim>\<open>components\<close> dict
  lists a component (such as "room2") that advertises this capability, the entities
  handed to \<^verbatim>\<open>async_add_entities\<close> hold one bound to "main" and one bound to that
  component. Conversely, every entity bound to a component other than "main" belongs to
  a device of the broker and to a capability that this component advertises and that
  is in the device's assigned result.
\<close>

theorem factory_binds_assigned_capability_per_component:
  assumes "hass_data (DOMAIN K) = Some domain_data"
    and "domain_data (DATA_BROKERS K) = Some brokers"
    and "brokers entry_id = Some broker"
  shows "((\<forall>d' \<in> set (devices broker).
            \<forall>c \<in> set (get_assigned broker (device_id d') ''number'').
              c \<in> set (map fst (CAPABILITY_TO_NUMBER K))) \<longrightarrow>
          (\<exists>numbers. async_setup_entry K hass_data entry_id = Inr numbers))
       \<and> (async_setup_entry K hass_data entry_id = Inr numbers \<and>
          d \<in> set (devices broker) \<and>
          Capability_thermostat_cooling_setpoint K \<in> set (get_assigned broker (device_id d) ''number'') \<and>
          distinct (map fst (components d)) \<and>
          (component, capabilities) \<in> set (components d) \<and>
          Capability_thermostat_cooling_setpoint K \<in> set capabilities \<longrightarrow>
          (\<exists>m. lookup K (Capability_thermostat_cooling_setpoint K) = Inr [m] \<and>
             new_number d ''main'' m \<in> set numbers \<and>
             new_number d component m \<in> set numbers))
       \<and> (async_setup_entry K hass_data entry_id = Inr numbers \<and>
          n \<in> set numbers \<and> s_component n \<noteq> ''main'' \<longrightarrow>
          s_device n \<in> set (devices broker) \<and>
          (\<exists>capabilities c.
             map_of (components (s_device n)) (s_component n) = Some capabilities \<and>
             c \<in> set capabilities \<and>
             c \<in> set (get_assigned broker (device_id (s_device n)) ''number'')))"
proof (intro conjI impI)
  have s: "async_setup_entry K hass_data entry_id = device_loop K broker (devices broker) []"
    using assms by (simp add: setup_with_broker)
  {
    assume "\<forall>d' \<in> set (devices broker).
        \<forall>c \<in> set (get_assigned broker (device_id d') ''number'').
          c \<in> set (map fst (CAPABILITY_TO_NUMBER K))"
    then have "\<forall>d' \<in> set (devices broker).
        \<forall>c \<in> set (get_assigned broker (device_id d') ''number'').
          c = Capability_thermostat_cooling_setpoint K"
      by (simp add: keys_registry)
    from device_loop_ok [OF this, of "[]"] s
    show "\<exists>numbers. async_setup_entry K hass_data entry_id = Inr numbers" by simp
  }
  {
    assume a: "async_setup_entry K hass_data entry_id = Inr numbers \<and>
          d \<in> set (devices broker) \<and>
          Capability_thermostat_cooling_setpoint K \<in> set (get_assigned broker (device_id d) ''number'') \<and>
          distinct (map fst (components d)) \<and>
          (component, capabilities) \<in> set (components d) \<and>
          Capability_thermostat_cooling_setpoint K \<in> set capabilities"
    obtain m where m: "lookup K (Capability_thermostat_cooling_setpoint K) = Inr [m]"
      using lookup_known [of K] by blast
    from a have g: "map_of (components d) component = Some capabilities"
      by (simp add: map_of_is_SomeI)
    from a s have l: "device_loop K broker (devices broker) [] = Inr numbers" by simp
    from device_loop_member [OF l, of d "Capability_thermostat_cooling_setpoint K" "[m]" m] a m g
    have "new_number d ''main'' m \<in> set numbers \<and> new_number d component m \<in> set numbers"
      by auto
    with m show "\<exists>m. lookup K (Capability_thermostat_cooling_setpoint K) = Inr [m] \<and>
             new_number d ''main'' m \<in> set numbers \<and>
             new_number d component m \<in> set numbers"
      by blast
  }
  {
    assume a: "async_setup_entry K hass_data entry_id = Inr numbers \<and>
          n \<in> set numbers \<and> s_component n \<noteq> ''main''"
    with s have l: "device_loop K broker (devices broker) [] = Inr numbers" by simp
    from device_loop_origin [OF l, of n] a
    show "s_device n \<in> set (devices broker)"
      and "\<exists>capabilities c.
             map_of (components (s_device n)) (s_component n) = Some capabilities \<and>
             c \<in> set capabilities \<and>
             c \<in> set (get_assigned broker (device_id (s_device n)) ''number'')"
      by simp_all
  }
qed

theorem factory_binds_assigned_capability_per_component_witness:
  "\<exists>numbers.
     async_setup_entry example_consts (hass_data_of house_broker) ''entry-1'' = Inr numbers
     \<and> new_number thermostat ''main'' example_map \<in> set numbers
     \<and> new_number thermostat ''room2'' example_map \<in> set numbers
     \<and> new_number fridge ''freezer'' example_map \<in> set numbers"
proof -
  have l: "lookup example_consts ''thermostatCoolingSetpoint'' = Inr [example_map]"
    by (simp add: lookup_def getitem_def example_map_def CAPABILITY_TO_NUMBER_def example_consts_def)
  have k: "fst ` set (CAPABILITY_TO_NUMBER example_consts) = {''thermostatCoolingSetpoint''}"
    by (simp add: CAPABILITY_TO_NUMBER_def example_consts_def)
  have b: "devices house_broker = [fridge, thermostat]"
    "get_assigned house_broker i ''number'' = [''thermostatCoolingSetpoint'']"
    "components thermostat = [(''room2'', [''thermostatCoolingSetpoint''])]"
    "components fridge = [(''cooler'', [''thermostatCoolingSetpoint'']),
       (''freezer'', [''thermostatCoolingSetpoint''])]"
    for i
    by (simp_all add: house_broker_def thermostat_def fridge_def)
  have h: "hass_data_of house_broker (DOMAIN example_consts) =
      Some [''brokers'' \<mapsto> [''entry-1'' \<mapsto> house_broker]]"
    "[''brokers'' \<mapsto> [''entry-1'' \<mapsto> house_broker]] (DATA_BROKERS example_consts) =
      Some [''entry-1'' \<mapsto> house_broker]"
    "[''entry-1'' \<mapsto> house_broker] ''entry-1'' = Some house_broker"
    by (simp_all add: example_lookups example_consts_fields)
  note t = factory_binds_assigned_capability_per_component
    [where hass_data = "hass_data_of house_broker" and K = example_consts
      and domain_data = "[''brokers'' \<mapsto> [''entry-1'' \<mapsto> house_broker]]"
      and brokers = "[''entry-1'' \<mapsto> house_broker]" and entry_id = "''entry-1''"
      and broker = house_broker, OF h]
  from t [THEN conjunct1] obtain numbers where
    n: "async_setup_entry example_consts (hass_data_of house_broker) ''entry-1'' = Inr numbers"
    by (auto simp: k b)
  from t [where numbers = numbers and d = thermostat and component = "''room2''"
        and capabilities = "[''thermostatCoolingSetpoint'']", THEN conjunct2, THEN conjunct1]
    t [where numbers = numbers and d = fridge and component = "''freezer''"
        and capabilities = "[''thermostatCoolingSetpoint'']", THEN conjunct2, THEN conjunct1]
    n l
  show ?thesis by (simp add: b example_consts_fields)
qed

theorem factory_room2_counterexample:
  "get_assigned example_broker (device_id thermostat) ''number'' = [''thermostatCoolingSetpoint'']
   \<and> ''room2'' \<notin> set (get_assigned example_broker (device_id thermostat) ''number'')
   \<and> components thermostat = [(''room2'', [''thermostatCoolingSetpoint''])]
   \<and> devices example_broker = [thermostat]
   \<and> map_sum id (map s_component)
       (async_setup_entry example_consts (hass_data_of example_broker) ''entry-1'') =
     Inr [''main'', ''room2'']"
  by (simp add: async_setup_entry_def getitem_def hass_data_of_def example_consts_def
      example_broker_def thermostat_def device_body_def lookup_def CAPABILITY_TO_NUMBER_def
      new_number_def)

end
